theory Spec2Isabelle
  imports Main
begin

section \<open>The note route: \<open>app/routes/users+/$username_+/notes.$noteId.tsx\<close>\<close>

subsection \<open>Data\<close>

text \<open>
  A record of the \<open>note\<close> model held by the store. The route reads the fields \<open>id\<close>,
  \<open>title\<close> and \<open>content\<close>; whatever else the store keeps with a note (owner, timestamps,
  images, ...) is the extension part \<open>\<dots>\<close> of the record scheme. The field \<open>id\<close> is named
  \<open>id_field\<close> here, since \<open>id\<close> is the identity function of HOL.
\<close>

record Note =
  id_field :: string
  title :: string
  content :: string

text \<open>The store: the notes in the order in which a scan of the model meets them.\<close>

type_synonym 'z db = "'z Note_scheme list"

text \<open>
  The object literal \<open>{ title: note.title, content: note.content }\<close> and the literal
  \<open>{ note: ... }\<close> around it (lines 19 to 21). The field \<open>note\<close> is named
  \<open>note_field\<close>, since \<open>note\<close> is a keyword of Isar.
\<close>

record note_json =
  title :: string
  content :: string

record loader_data =
  note_field :: note_json

text \<open>A \<open>Response\<close>: its status code and its body.\<close>

record 'a Response =
  status :: nat
  body :: 'a

text \<open>
  \<open>DataFunctionArgs\<close>: the loader destructures \<open>params\<close> only. A route parameter is
  \<open>string | undefined\<close>, so \<open>params\<close> is a partial map from parameter names.
\<close>

record DataFunctionArgs =
  params :: "string \<rightharpoonup> string"

text \<open>
  The query object \<open>{ where: { id: { equals: v } } }\<close>, the only shape the route builds;
  \<open>v\<close> is \<open>params.noteId\<close>, which may be \<open>undefined\<close> (\<open>None\<close>).
\<close>

datatype note_query = WhereIdEquals "string option"

subsection \<open>Collaborators that the route imports\<close>

text \<open>
  Modelled from the spec: \<open>db.note.findFirst\<close> of \<open>#app/utils/db.server.ts\<close> is not among
  the sources. The spec (4.1, 6): the store "exposes a point-read-by-identifier operation
  returning zero or one record"; the lookup "queries the store for exactly one record whose
  identifier equals the input" and has "no side effects beyond the read". So the read
  returns the first record whose \<open>id\<close> equals the queried value, \<open>None\<close> (the source's
  \<open>null\<close>) when there is none, together with the store, which it leaves as it was. A stored
  \<open>id\<close> is a string, so the value \<open>undefined\<close> equals no stored \<open>id\<close>.
\<close>

fun matches :: "note_query \<Rightarrow> 'z Note_scheme \<Rightarrow> bool" where
  "matches (WhereIdEquals v) n = (v = Some (id_field n))"

definition findFirst :: "note_query \<Rightarrow> 'z db \<Rightarrow> 'z Note_scheme option \<times> 'z db" where
  "findFirst q store = (find (matches q) store, store)"

text \<open>
  Modelled from the spec: \<open>invariantResponse\<close> of \<open>#app/utils/misc.ts\<close> is not among the
  sources. The lesson text of the route's file says that it "throws responses for us" and
  "works just the same way" as \<open>if (!x) throw new Response(message, { status })\<close>; the spec
  (4.1): the signal carries "a human-readable message and a standard status code". A thrown
  response is the left summand. The condition the route passes is a record or \<open>null\<close>, and
  every record is truthy.
\<close>

definition invariantResponse :: "'a option \<Rightarrow> string \<Rightarrow> nat \<Rightarrow> string Response + 'a" where
  "invariantResponse condition message st =
     (case condition of
        None \<Rightarrow> Inl \<lparr>status = st, body = message\<rparr>
      | Some v \<Rightarrow> Inr v)"

text \<open>
  Modelled from the spec: \<open>json\<close> is imported from the framework (\<open>@remix-run/node\<close>)
  and is not among the sources. The spec (4.1) has the lookup return the title and the
  content as they are, so \<open>json\<close> carries the data it is given, unchanged, as the body of
  its response; the status of that response is the framework's 200.
\<close>

definition json :: "'a \<Rightarrow> 'a Response" where
  "json d = \<lparr>status = 200, body = d\<rparr>"

subsection \<open>The loader (lines 8 to 22)\<close>

text \<open>
  The loader with the store passed explicitly: it takes the store and gives back the store
  after the call, beside what it returns (\<open>Inr\<close>) or throws (\<open>Inl\<close>).
\<close>

definition loader ::
  "DataFunctionArgs \<Rightarrow> 'z db \<Rightarrow> (string Response + loader_data Response) \<times> 'z db" where
  "loader args store =
     (let (found, store') = findFirst (WhereIdEquals (params args ''noteId'')) store
      in case invariantResponse found ''Note not found'' 404 of
           Inl thrown \<Rightarrow> (Inl thrown, store')
         | Inr n \<Rightarrow>
             (Inr (json \<lparr>note_field = \<lparr>title = Note.title n, content = Note.content n\<rparr>\<rparr>), store'))"

text \<open>The route called with the identifier \<open>i\<close> in the path.\<close>

definition withNoteId :: "string \<Rightarrow> DataFunctionArgs" where
  "withNoteId i = \<lparr>params = [''noteId'' \<mapsto> i]\<rparr>"

text \<open>The route called with no \<open>noteId\<close> parameter.\<close>

definition withoutNoteId :: DataFunctionArgs where
  "withoutNoteId = \<lparr>params = Map.empty\<rparr>"

text \<open>
  Lookups made one after the other, each on the store that the one before left: the
  results in order, and the store after the last.
\<close>

fun lookups ::
  "nat \<Rightarrow> DataFunctionArgs \<Rightarrow> 'z db \<Rightarrow> (string Response + loader_data Response) list \<times> 'z db" where
  "lookups 0 args store = ([], store)"
| "lookups (Suc k) args store =
     (let (r, store1) = loader args store;
          (rs, store2) = lookups k args store1
      in (r # rs, store2))"

subsection \<open>Views\<close>

text \<open>
  What a component returns: a tree of elements. A lower-case JSX tag is a host element, a
  capitalised one names an imported component (\<open>Button\<close>, \<open>Link\<close>). A prop is a string
  (\<open>variant="destructive"\<close>) or a flag (\<open>asChild\<close>). JSX drops the line breaks and
  indentation around \<open>{data.note.content}\<close>, so the expression is the only child of its
  paragraph.
\<close>

datatype prop_value = Str string | Flag bool

datatype element_type = Host string | Component string

datatype node = Text string | Element element_type "(string \<times> prop_value) list" "node list"

text \<open>Queries on a view: its text, its elements in document order, those of one type.\<close>

fun textContent :: "node \<Rightarrow> string" where
  "textContent (Text s) = s"
| "textContent (Element t ps cs) = concat (map textContent cs)"

fun elements :: "node \<Rightarrow> node list" where
  "elements (Text s) = []"
| "elements (Element t ps cs) = Element t ps cs # concat (map elements cs)"

fun hasType :: "element_type \<Rightarrow> node \<Rightarrow> bool" where
  "hasType t (Text s) = False"
| "hasType t (Element t' ps cs) = (t' = t)"

definition getElementsByType :: "element_type \<Rightarrow> node \<Rightarrow> node list" where
  "getElementsByType t v = filter (hasType t) (elements v)"

fun elementType :: "node \<Rightarrow> element_type option" where
  "elementType (Text s) = None"
| "elementType (Element t ps cs) = Some t"

fun propNames :: "node \<Rightarrow> string list" where
  "propNames (Text s) = []"
| "propNames (Element t ps cs) = map fst ps"

text \<open>The class names of an element: its \<open>className\<close> split at the spaces.\<close>

fun splitAtSpaces :: "string \<Rightarrow> string list" where
  "splitAtSpaces [] = [[]]"
| "splitAtSpaces (c # cs) =
     (if c = CHR '' '' then [] # splitAtSpaces cs
      else (case splitAtSpaces cs of [] \<Rightarrow> [[c]] | w # ws \<Rightarrow> (c # w) # ws))"

fun classList :: "node \<Rightarrow> string list" where
  "classList (Text s) = []"
| "classList (Element t ps cs) =
     (case map_of ps ''className'' of
        Some (Str s) \<Rightarrow> filter (\<lambda>w. w \<noteq> []) (splitAtSpaces s)
      | _ \<Rightarrow> [])"

subsection \<open>The route component (lines 24 to 43)\<close>

text \<open>
  \<open>NoteRoute\<close> calls one hook, \<open>useLoaderData\<close>, which hands it the data the loader
  answered with; the component is a function of that data. The constant
  \<open>floatingToolbarClassName\<close> is imported from \<open>#app/components/floating-toolbar.tsx\<close>,
  which is not among the sources: it is a parameter.
\<close>

definition useLoaderData :: "'a Response \<Rightarrow> 'a" where
  "useLoaderData response = body response"

definition NoteRoute :: "string \<Rightarrow> loader_data \<Rightarrow> node" where
  "NoteRoute floatingToolbarClassName data =
     Element (Host ''div'') [(''className'', Str ''absolute inset-0 flex flex-col px-10'')]
       [Element (Host ''h2'') [(''className'', Str ''mb-2 pt-12 text-h2 lg:mb-6'')]
          [Text (title (note_field data))],
        Element (Host ''div'') [(''className'', Str ''overflow-y-auto pb-24'')]
          [Element (Host ''p'') [(''className'', Str ''whitespace-break-spaces text-sm md:text-lg'')]
             [Text (content (note_field data))]],
        Element (Host ''div'') [(''className'', Str floatingToolbarClassName)]
          [Element (Component ''Button'') [(''variant'', Str ''destructive'')] [Text ''Delete''],
           Element (Component ''Button'') [(''asChild'', Flag True)]
             [Element (Component ''Link'') [(''to'', Str ''edit'')] [Text ''Edit'']]]]"

subsection \<open>The error boundary of the lesson text (lines 98 to 109)\<close>

text \<open>
  What \<open>useRouteError\<close> hands to the boundary: a response that a loader threw, some other
  thrown value (an \<open>Error\<close> with its message), or nothing. \<open>isRouteErrorResponse\<close> is the
  framework's test for the first; inside the \<open>if\<close> that it guards, \<open>error.status\<close> is
  the status of that response, which is the first case of \<open>ErrorBoundary\<close> below.
\<close>

datatype route_error =
  RouteErrorResponse "string Response"
| OtherError string
| NoError

fun isRouteErrorResponse :: "route_error \<Rightarrow> bool" where
  "isRouteErrorResponse (RouteErrorResponse r) = True"
| "isRouteErrorResponse e = False"

definition ErrorBoundary :: "route_error \<Rightarrow> node" where
  "ErrorBoundary error =
     (case error of
        RouteErrorResponse r \<Rightarrow>
          (if status r = 404 then Element (Host ''p'') [] [Text ''Not Found'']
           else if status r = 401 then Element (Host ''p'') [] [Text ''Unauthorized'']
           else Element (Host ''p'') [] [Text ''Something went wrong''])
      | _ \<Rightarrow> Element (Host ''p'') [] [Text ''Something went wrong''])"

subsection \<open>Facts about the store read\<close>

lemma findFirst_absent:
  "i \<notin> id_field ` set store \<Longrightarrow> fst (findFirst (WhereIdEquals (Some i)) store) = None"
  by (induction store) (auto simp: findFirst_def)

lemma findFirst_present:
  "i \<in> id_field ` set store \<Longrightarrow>
   \<exists>n. fst (findFirst (WhereIdEquals (Some i)) store) = Some n \<and> n \<in> set store \<and> id_field n = i"
  by (induction store) (auto simp: findFirst_def)

lemma findFirst_undefined: "fst (findFirst (WhereIdEquals None) store) = None"
  by (induction store) (auto simp: findFirst_def)

lemma findFirst_store: "snd (findFirst q store) = store"
  by (simp add: findFirst_def)

lemma findFirst_unique:
  "distinct (map id_field store) \<Longrightarrow> n \<in> set store \<Longrightarrow>
   fst (findFirst (WhereIdEquals (Some (id_field n))) store) = Some n"
proof (induction store)
  case Nil
  then show ?case by simp
next
  case (Cons a store)
  show ?case
  proof (cases "id_field a = id_field n")
    case True
    have "a = n"
    proof (rule ccontr)
      assume "a \<noteq> n"
      with Cons.prems have "n \<in> set store" by simp
      then have "id_field n \<in> id_field ` set store" by (rule imageI)
      with True Cons.prems show False by simp
    qed
    then show ?thesis by (simp add: findFirst_def)
  next
    case False
    with Cons show ?thesis by (auto simp: findFirst_def)
  qed
qed

lemma same_id_same_record:
  "distinct (map id_field store) \<Longrightarrow> n \<in> set store \<Longrightarrow> m \<in> set store \<Longrightarrow>
   id_field m = id_field n \<Longrightarrow> m = n"
  by (auto simp: distinct_map dest: inj_onD)

lemma loader_unfold:
  "loader args store =
     (case fst (findFirst (WhereIdEquals (params args ''noteId'')) store) of
        None \<Rightarrow> (Inl \<lparr>status = 404, body = ''Note not found''\<rparr>, store)
      | Some n \<Rightarrow>
          (Inr (json \<lparr>note_field = \<lparr>title = Note.title n, content = Note.content n\<rparr>\<rparr>), store))"
  by (simp add: loader_def findFirst_def invariantResponse_def split: option.splits)

lemma loader_store: "snd (loader args store) = store"
  by (simp add: loader_unfold split: option.splits)

lemma lookups_unfold:
  "lookups k args store = (replicate k (fst (loader args store)), store)"
proof (induction k)
  case 0
  then show ?case by simp
next
  case (Suc k)
  obtain r where r: "loader args store = (r, store)"
    using loader_store [of args store] by (cases "loader args store") simp
  with Suc show ?case by simp
qed

lemma params_withNoteId [simp]: "params (withNoteId i) ''noteId'' = Some i"
  by (simp add: withNoteId_def)

lemma params_withoutNoteId [simp]: "params withoutNoteId ''noteId'' = None"
  by (simp add: withoutNoteId_def)

section \<open>The claims\<close>

text \<open>
  C1. For every identifier that no stored record has, the loader throws the response with
  status 404 and the message \<open>Note not found\<close>. This is the only thing it ever throws, and
  it throws exactly when the identifier resolves to no record.
\<close>

theorem loader_not_found:
  "(i \<notin> id_field ` set store \<longrightarrow>
      fst (loader (withNoteId i) store) = Inl \<lparr>status = 404, body = ''Note not found''\<rparr>)
   \<and> (isl (fst (loader (withNoteId i) store)) \<longleftrightarrow> i \<notin> id_field ` set store)
   \<and> (\<forall>thrown. fst (loader args store) = Inl thrown \<longrightarrow>
        thrown = \<lparr>status = 404, body = ''Note not found''\<rparr>
        \<and> fst (findFirst (WhereIdEquals (params args ''noteId'')) store) = None)"
proof (intro conjI allI impI)
  assume "i \<notin> id_field ` set store"
  then show "fst (loader (withNoteId i) store) = Inl \<lparr>status = 404, body = ''Note not found''\<rparr>"
    by (simp add: loader_unfold findFirst_absent)
next
  show "isl (fst (loader (withNoteId i) store)) \<longleftrightarrow> i \<notin> id_field ` set store"
  proof (cases "i \<in> id_field ` set store")
    case True
    from findFirst_present [OF True] obtain n
      where "fst (findFirst (WhereIdEquals (Some i)) store) = Some n" by blast
    with True show ?thesis by (simp add: loader_unfold)
  next
    case False
    then show ?thesis by (simp add: loader_unfold findFirst_absent)
  qed
next
  fix thrown
  assume "fst (loader args store) = Inl thrown"
  then show "thrown = \<lparr>status = 404, body = ''Note not found''\<rparr>"
    by (simp add: loader_unfold split: option.splits)
next
  fix thrown
  assume "fst (loader args store) = Inl thrown"
  then show "fst (findFirst (WhereIdEquals (params args ''noteId'')) store) = None"
    by (simp add: loader_unfold split: option.splits)
qed

theorem loader_not_found_witness:
  "''n2'' \<notin> id_field ` set [\<lparr>id_field = ''n1'', Note.title = ''T'', Note.content = ''C''\<rparr>]
   \<and> fst (loader (withNoteId ''n2'')
             [\<lparr>id_field = ''n1'', Note.title = ''T'', Note.content = ''C''\<rparr>])
       = Inl \<lparr>status = 404, body = ''Note not found''\<rparr>
   \<and> \<not> isl (fst (loader (withNoteId ''n1'')
             [\<lparr>id_field = ''n1'', Note.title = ''T'', Note.content = ''C''\<rparr>]))
   \<and> fst (findFirst (WhereIdEquals (params (withNoteId ''n2'') ''noteId''))
             [\<lparr>id_field = ''n1'', Note.title = ''T'', Note.content = ''C''\<rparr>]) = None"
proof -
  let ?store = "[\<lparr>id_field = ''n1'', Note.title = ''T'', Note.content = ''C''\<rparr>]"
  have absent: "''n2'' \<notin> id_field ` set ?store"
    by simp
  have present: "''n1'' \<in> id_field ` set ?store"
    by simp
  have thrown: "fst (loader (withNoteId ''n2'') ?store) = Inl \<lparr>status = 404, body = ''Note not found''\<rparr>"
    using loader_not_found [where i = "''n2''" and store = ?store] absent by blast
  have returned: "\<not> isl (fst (loader (withNoteId ''n1'') ?store))"
    using loader_not_found [where i = "''n1''" and store = ?store] present by blast
  have unmatched: "fst (findFirst (WhereIdEquals (params (withNoteId ''n2'') ''noteId'')) ?store) = None"
    using loader_not_found [where args = "withNoteId ''n2''" and store = ?store] thrown by blast
  from absent thrown returned unmatched show ?thesis
    by blast
qed

text \<open>
  C2. For every identifier that a stored record has, the loader returns, and the note it
  returns has the title and the content of a stored record with that identifier, character
  for character; where identifiers are unique in the store, that record is the only one
  with the identifier.
\<close>

theorem loader_found:
  assumes "i \<in> id_field ` set store"
  shows "\<exists>n r. n \<in> set store \<and> id_field n = i
           \<and> fst (loader (withNoteId i) store) = Inr r
           \<and> status r = 200
           \<and> title (note_field (useLoaderData r)) = Note.title n
           \<and> content (note_field (useLoaderData r)) = Note.content n
           \<and> (distinct (map id_field store) \<longrightarrow>
                (\<forall>m \<in> set store. id_field m = i \<longrightarrow> m = n))"
proof -
  from findFirst_present [OF assms] obtain n
    where found: "fst (findFirst (WhereIdEquals (Some i)) store) = Some n"
      and mem: "n \<in> set store" and ident: "id_field n = i"
    by blast
  let ?r = "json \<lparr>note_field = \<lparr>title = Note.title n, content = Note.content n\<rparr>\<rparr>"
  have "fst (loader (withNoteId i) store) = Inr ?r"
    using found by (simp add: loader_unfold)
  moreover have "status ?r = 200"
    by (simp add: json_def)
  moreover have "title (note_field (useLoaderData ?r)) = Note.title n"
    by (simp add: json_def useLoaderData_def)
  moreover have "content (note_field (useLoaderData ?r)) = Note.content n"
    by (simp add: json_def useLoaderData_def)
  moreover have "distinct (map id_field store) \<longrightarrow> (\<forall>m \<in> set store. id_field m = i \<longrightarrow> m = n)"
    using mem ident same_id_same_record by blast
  ultimately show ?thesis
    using mem ident by blast
qed

theorem loader_found_witness:
  "\<exists>r. fst (loader (withNoteId ''n2'')
            [\<lparr>id_field = ''n1'', Note.title = ''T1'', Note.content = ''C1''\<rparr>,
             \<lparr>id_field = ''n2'', Note.title = '' T2 '', Note.content = ''line1\<newline>  line2''\<rparr>]) = Inr r
     \<and> title (note_field (useLoaderData r)) = '' T2 ''
     \<and> content (note_field (useLoaderData r)) = ''line1\<newline>  line2''"
  using loader_found [of "''n2''"
      "[\<lparr>id_field = ''n1'', Note.title = ''T1'', Note.content = ''C1''\<rparr>,
        \<lparr>id_field = ''n2'', Note.title = '' T2 '', Note.content = ''line1\<newline>  line2''\<rparr>]"]
  by auto

text \<open>
  C3. The answer of a successful lookup holds the title and the content of the found record
  and nothing else: two stores, of any record types, whose records for the identifier agree
  on title and content give the same answer, whatever else they keep with the record.
\<close>

theorem loader_exposes_title_and_content_only:
  fixes store1 :: "'y db" and store2 :: "'z db"
  assumes "distinct (map id_field store1)" and "distinct (map id_field store2)"
    and "n1 \<in> set store1" and "n2 \<in> set store2"
    and "id_field n1 = i" and "id_field n2 = i"
    and "Note.title n1 = Note.title n2" and "Note.content n1 = Note.content n2"
  shows "fst (loader (withNoteId i) store1) = fst (loader (withNoteId i) store2)
       \<and> fst (loader (withNoteId i) store1)
           = Inr \<lparr>status = 200,
                  body = \<lparr>note_field = \<lparr>title = Note.title n1, content = Note.content n1\<rparr>\<rparr>\<rparr>"
proof -
  have "fst (findFirst (WhereIdEquals (Some i)) store1) = Some n1"
    using findFirst_unique [OF assms(1) assms(3)] assms(5) by simp
  moreover have "fst (findFirst (WhereIdEquals (Some i)) store2) = Some n2"
    using findFirst_unique [OF assms(2) assms(4)] assms(6) by simp
  ultimately show ?thesis
    using assms(7,8) by (simp add: loader_unfold json_def)
qed

theorem loader_exposes_title_and_content_only_witness:
  "fst (loader (withNoteId ''n1'')
          [\<lparr>id_field = ''n1'', Note.title = ''T'', Note.content = ''C'', \<dots> = ''kody''\<rparr>])
   = fst (loader (withNoteId ''n1'')
          [\<lparr>id_field = ''n0'', Note.title = ''S'', Note.content = ''D'', \<dots> = (7::nat, True)\<rparr>,
           \<lparr>id_field = ''n1'', Note.title = ''T'', Note.content = ''C'', \<dots> = (42::nat, False)\<rparr>])"
  using loader_exposes_title_and_content_only
    [of "[\<lparr>id_field = ''n1'', Note.title = ''T'', Note.content = ''C'', \<dots> = ''kody''\<rparr>]"
        "[\<lparr>id_field = ''n0'', Note.title = ''S'', Note.content = ''D'', \<dots> = (7::nat, True)\<rparr>,
          \<lparr>id_field = ''n1'', Note.title = ''T'', Note.content = ''C'', \<dots> = (42::nat, False)\<rparr>]"
        "\<lparr>id_field = ''n1'', Note.title = ''T'', Note.content = ''C'', \<dots> = ''kody''\<rparr>"
        "\<lparr>id_field = ''n1'', Note.title = ''T'', Note.content = ''C'', \<dots> = (42::nat, False)\<rparr>"
        "''n1''"]
  by simp

text \<open>
  C4. For every note that the loader answered with, the view of \<open>NoteRoute\<close> has one
  heading, whose text is the title; one paragraph, whose only child is the content as it
  is, no character added, dropped or changed, and which carries the class
  \<open>whitespace-break-spaces\<close>; and two buttons, labelled \<open>Delete\<close> and \<open>Edit\<close>. For the
  content \<open>line1\<close>, line break, two spaces, \<open>line2\<close>, the paragraph holds just that.
\<close>

theorem NoteRoute_view:
  "map textContent (getElementsByType (Host ''h2'') (NoteRoute toolbar d)) = [title (note_field d)]
   \<and> getElementsByType (Host ''p'') (NoteRoute toolbar d)
       = [Element (Host ''p'') [(''className'', Str ''whitespace-break-spaces text-sm md:text-lg'')]
            [Text (content (note_field d))]]
   \<and> map textContent (getElementsByType (Host ''p'') (NoteRoute toolbar d)) = [content (note_field d)]
   \<and> map classList (getElementsByType (Host ''p'') (NoteRoute toolbar d))
       = [[''whitespace-break-spaces'', ''text-sm'', ''md:text-lg'']]
   \<and> map textContent (getElementsByType (Component ''Button'') (NoteRoute toolbar d))
       = [''Delete'', ''Edit'']"
  by (simp add: NoteRoute_def getElementsByType_def)

theorem NoteRoute_view_two_lines:
  "map textContent (getElementsByType (Host ''p'')
     (NoteRoute ''bar'' \<lparr>note_field = \<lparr>title = ''T'', content = ''line1\<newline>  line2''\<rparr>\<rparr>))
   = [''line1\<newline>  line2'']
   \<and> map textContent (getElementsByType (Host ''h2'')
     (NoteRoute ''bar'' \<lparr>note_field = \<lparr>title = ''T'', content = ''line1\<newline>  line2''\<rparr>\<rparr>))
   = [''T'']"
  using NoteRoute_view [of "''bar''" "\<lparr>note_field = \<lparr>title = ''T'', content = ''line1\<newline>  line2''\<rparr>\<rparr>"]
  by simp

text \<open>
  C5. For a thrown response of status 404 the boundary shows \<open>Not Found\<close>, for one of
  status 401 it shows \<open>Unauthorized\<close>, and for anything that is no thrown response, or is
  one of another status, it shows \<open>Something went wrong\<close>; the three views differ from
  one another.
\<close>

theorem ErrorBoundary_messages:
  assumes "status r404 = 404" and "status r401 = 401"
    and "\<not> isRouteErrorResponse e
         \<or> (\<exists>r. e = RouteErrorResponse r \<and> status r \<noteq> 404 \<and> status r \<noteq> 401)"
  shows "textContent (ErrorBoundary (RouteErrorResponse r404)) = ''Not Found''
       \<and> textContent (ErrorBoundary (RouteErrorResponse r401)) = ''Unauthorized''
       \<and> textContent (ErrorBoundary e) = ''Something went wrong''
       \<and> ErrorBoundary (RouteErrorResponse r404) \<noteq> ErrorBoundary (RouteErrorResponse r401)
       \<and> ErrorBoundary (RouteErrorResponse r404) \<noteq> ErrorBoundary e
       \<and> ErrorBoundary (RouteErrorResponse r401) \<noteq> ErrorBoundary e"
proof -
  have a: "ErrorBoundary (RouteErrorResponse r404) = Element (Host ''p'') [] [Text ''Not Found'']"
    using assms(1) by (simp add: ErrorBoundary_def)
  have b: "ErrorBoundary (RouteErrorResponse r401) = Element (Host ''p'') [] [Text ''Unauthorized'']"
    using assms(2) by (simp add: ErrorBoundary_def)
  have c: "ErrorBoundary e = Element (Host ''p'') [] [Text ''Something went wrong'']"
    using assms(3) by (cases e) (auto simp: ErrorBoundary_def)
  show ?thesis
    unfolding a b c by simp
qed

theorem ErrorBoundary_messages_witness:
  "textContent (ErrorBoundary (RouteErrorResponse \<lparr>status = 404, body = ''Note not found''\<rparr>))
     = ''Not Found''
   \<and> textContent (ErrorBoundary (RouteErrorResponse \<lparr>status = 401, body = ''Unauthorized''\<rparr>))
     = ''Unauthorized''
   \<and> textContent (ErrorBoundary NoError) = ''Something went wrong''
   \<and> textContent (ErrorBoundary (RouteErrorResponse \<lparr>status = 500, body = ''Oh no''\<rparr>))
     = ''Something went wrong''
   \<and> ErrorBoundary (RouteErrorResponse \<lparr>status = 404, body = ''Note not found''\<rparr>)
     \<noteq> ErrorBoundary (RouteErrorResponse \<lparr>status = 401, body = ''Unauthorized''\<rparr>)
   \<and> ErrorBoundary (RouteErrorResponse \<lparr>status = 404, body = ''Note not found''\<rparr>)
     \<noteq> ErrorBoundary NoError"
  using ErrorBoundary_messages
    [of "\<lparr>status = 404, body = ''Note not found''\<rparr>" "\<lparr>status = 401, body = ''Unauthorized''\<rparr>" NoError]
    ErrorBoundary_messages
    [of "\<lparr>status = 404, body = ''Note not found''\<rparr>" "\<lparr>status = 401, body = ''Unauthorized''\<rparr>"
        "RouteErrorResponse \<lparr>status = 500, body = ''Oh no''\<rparr>"]
  by simp

text \<open>
  C6. Any number of lookups of the same identifier, made one after the other with no write
  between them, give the same result each time: the same note, or the same thrown response.
\<close>

theorem lookups_identical:
  "fst (lookups k args store) = replicate k (fst (loader args store))
   \<and> fst (loader args (snd (loader args store))) = fst (loader args store)"
  by (simp add: lookups_unfold loader_store)

text \<open>
  C7. After a lookup, and after any number of them, the store is as it was before, whether
  the loader returned a note or threw.
\<close>

theorem loader_leaves_store:
  "snd (loader args store) = store \<and> snd (lookups k args store) = store"
  by (simp add: lookups_unfold loader_store)

text \<open>
  C8. The view of \<open>NoteRoute\<close> is a function of the note alone: two notes with equal title
  and equal content give the same view.
\<close>

theorem NoteRoute_function_of_note:
  assumes "title n1 = title n2" and "content n1 = content n2"
  shows "NoteRoute toolbar \<lparr>note_field = n1\<rparr> = NoteRoute toolbar \<lparr>note_field = n2\<rparr>"
  using assms by (simp add: NoteRoute_def)

theorem NoteRoute_function_of_note_witness:
  "NoteRoute ''bar'' \<lparr>note_field = \<lparr>title = ''T'', content = ''C''\<rparr>\<rparr>
   = NoteRoute ''bar'' (useLoaderData (json \<lparr>note_field = \<lparr>title = ''T'', content = ''C''\<rparr>\<rparr>))"
  using NoteRoute_function_of_note
    [of "\<lparr>title = ''T'', content = ''C''\<rparr>"
        "note_field (useLoaderData (json \<lparr>note_field = \<lparr>title = ''T'', content = ''C''\<rparr>\<rparr>))" "''bar''"]
  by (simp add: useLoaderData_def json_def)

text \<open>
  C9. When the route has no \<open>noteId\<close> parameter, the query matches no record and the
  loader throws the response with status 404 and the message \<open>Note not found\<close>, as it does
  for an identifier that no stored record has.
\<close>

theorem loader_without_noteId:
  assumes "params args ''noteId'' = None"
  shows "fst (findFirst (WhereIdEquals (params args ''noteId'')) store) = None
       \<and> fst (loader args store) = Inl \<lparr>status = 404, body = ''Note not found''\<rparr>
       \<and> (i \<notin> id_field ` set store \<longrightarrow>
            fst (loader args store) = fst (loader (withNoteId i) store))"
  using assms by (simp add: loader_unfold findFirst_undefined findFirst_absent)

theorem loader_without_noteId_witness:
  "fst (loader withoutNoteId [\<lparr>id_field = ''n1'', Note.title = ''T'', Note.content = ''C''\<rparr>])
     = Inl \<lparr>status = 404, body = ''Note not found''\<rparr>
   \<and> fst (loader withoutNoteId [\<lparr>id_field = ''n1'', Note.title = ''T'', Note.content = ''C''\<rparr>])
     = fst (loader (withNoteId ''n2'') [\<lparr>id_field = ''n1'', Note.title = ''T'', Note.content = ''C''\<rparr>])"
  using loader_without_noteId
    [where args = withoutNoteId and i = "''n2''"
       and store = "[\<lparr>id_field = ''n1'', Note.title = ''T'', Note.content = ''C''\<rparr>]"]
  by auto

text \<open>
  C10. The view has two buttons. The \<open>Edit\<close> button hands its rendering to its child, a
  link to the relative path \<open>edit\<close>. The \<open>Delete\<close> button has the one prop \<open>variant\<close> and
  the one child \<open>Delete\<close>: no handler, no target. The view has no form around it, and no
  element of the view has a prop other than \<open>className\<close>, \<open>variant\<close>, \<open>asChild\<close> and
  \<open>to\<close>.
\<close>

theorem NoteRoute_actions:
  "getElementsByType (Component ''Button'') (NoteRoute toolbar d)
     = [Element (Component ''Button'') [(''variant'', Str ''destructive'')] [Text ''Delete''],
        Element (Component ''Button'') [(''asChild'', Flag True)]
          [Element (Component ''Link'') [(''to'', Str ''edit'')] [Text ''Edit'']]]
   \<and> getElementsByType (Component ''Link'') (NoteRoute toolbar d)
     = [Element (Component ''Link'') [(''to'', Str ''edit'')] [Text ''Edit'']]
   \<and> concat (map propNames (elements (NoteRoute toolbar d)))
     = [''className'', ''className'', ''className'', ''className'', ''className'',
        ''variant'', ''asChild'', ''to'']
   \<and> map elementType (elements (NoteRoute toolbar d))
     = [Some (Host ''div''), Some (Host ''h2''), Some (Host ''div''), Some (Host ''p''),
        Some (Host ''div''), Some (Component ''Button''), Some (Component ''Button''),
        Some (Component ''Link'')]"
  by (simp add: NoteRoute_def getElementsByType_def)

end
